theory Spec2Isabelle
  imports Complex_Main "HOL-Library.Char_ord" "HOL-Library.List_Lexorder"
begin

section \<open>Common modelling conventions\<close>

text \<open>
  Python floats are modelled as exact reals: every statement below is about the arithmetic
  the program writes down, not about binary rounding error. A float is itself an exact
  number, and a decimal literal of a document (\<open>11.84\<close>) is read as the float nearest to
  it. A Python dict is an association
  list in insertion order; \<open>dict_set\<close> overwrites the value of an existing key in place and
  appends a new key at the end, as item assignment does.
\<close>

type_synonym ('k, 'v) dict = "('k \<times> 'v) list"

definition dict_get :: "('k, 'v) dict \<Rightarrow> 'k \<Rightarrow> 'v option" where
  "dict_get d k = map_of d k"

definition dict_get_or :: "('k, 'v) dict \<Rightarrow> 'k \<Rightarrow> 'v \<Rightarrow> 'v" where
  "dict_get_or d k dflt = (case map_of d k of None \<Rightarrow> dflt | Some v \<Rightarrow> v)"

fun dict_set :: "('k, 'v) dict \<Rightarrow> 'k \<Rightarrow> 'v \<Rightarrow> ('k, 'v) dict" where
  "dict_set [] k v = [(k, v)]"
| "dict_set ((k', v') # d) k v =
     (if k' = k then (k, v) # d else (k', v') # dict_set d k v)"

definition dict_keys :: "('k, 'v) dict \<Rightarrow> 'k list" where
  "dict_keys d = map fst d"

definition dict_values :: "('k, 'v) dict \<Rightarrow> 'v list" where
  "dict_values d = map snd d"

definition dict_map_values :: "('v \<Rightarrow> 'w) \<Rightarrow> ('k, 'v) dict \<Rightarrow> ('k, 'w) dict" where
  "dict_map_values f d = map (\<lambda>(k, v). (k, f v)) d"

text \<open>
  Python's \<open>round(x, 6)\<close>: nearest multiple of \<open>10^-6\<close>, a tie going to the even
  neighbour.
\<close>

definition round_half_even :: "real \<Rightarrow> int" where
  "round_half_even x =
     (let f = \<lfloor>x\<rfloor>; d = x - of_int f
      in if d < 1 / 2 then f
         else if 1 / 2 < d then f + 1
         else if even f then f else f + 1)"

definition round6 :: "real \<Rightarrow> real" where
  "round6 x = of_int (round_half_even (x * 1000000)) / 1000000"

section \<open>common/risk/risk.py\<close>

definition cap_position_weights :: "(string, real) dict \<Rightarrow> real \<Rightarrow> (string, real) dict" where
  "cap_position_weights weights max_pct =
     (let capped = dict_map_values (\<lambda>w. min w max_pct) weights;
          s = sum_list (dict_values capped)
      in if s = 0 then capped
         else dict_map_values (\<lambda>v. v / s) capped)"

section \<open>orchestrator/main.py: the plan builder\<close>

record signal =
  sig_instrument_id :: string
  sig_side :: string
  sig_confidence :: "real option"
  sig_rationale :: string
  sig_ttl_days :: int

text \<open>
  The strategy policy. \<open>position_max_pct\<close> and \<open>bands\<close> are optional keys of the
  document: the plan builder indexes \<open>risk_limits.position_max_pct\<close> directly (a missing
  key raises), the validator reads both with defaults.
\<close>

record strategy =
  alloc_target :: "(string, real) dict"
  bands :: "real option"
  position_max_pct :: "real option"

text \<open>An order of the plan; its \<open>max_notional\<close> is always \<open>None\<close> and is left out.\<close>

datatype action = INCREASE | HOLD

record order =
  ord_instrument_id :: string
  ord_action :: action
  ord_target_weight :: "real option"

record plan =
  classes :: "(string, (string, real) dict) dict"
  orders :: "order list"

datatype error = KeyError

definition infer_class :: "string \<Rightarrow> string" where
  "infer_class instrument_id =
     (if instrument_id \<in> set [''VNQ'', ''IPRP'', ''IWDP'', ''PLD'', ''O'', ''SPG''] then ''reits''
      else if instrument_id \<in> set [''BTC'', ''ETH''] then ''crypto''
      else if instrument_id \<in> set [''IEF'', ''TLT'', ''SHY'', ''IEGA'', ''IEAC'', ''LQD'', ''BUND'']
        then ''fixed_income''
      else ''equities'')"

text \<open>One iteration of the grouping loop of \<open>build_plan\<close>.\<close>

definition add_signal ::
  "(string, (string, real) dict) dict \<Rightarrow> signal \<Rightarrow> (string, (string, real) dict) dict" where
  "add_signal by_class s =
     (let inst = sig_instrument_id s;
          cls = infer_class inst;
          conf = (case sig_confidence s of None \<Rightarrow> 1 / 2 | Some c \<Rightarrow> c);
          insts = dict_get_or by_class cls []
      in dict_set by_class cls (dict_set insts inst (max conf (dict_get_or insts inst 0))))"

definition group_signals :: "signal list \<Rightarrow> (string, (string, real) dict) dict" where
  "group_signals signals = foldl add_signal [] signals"

definition class_plan_of :: "(string, real) dict \<Rightarrow> real \<Rightarrow> real \<Rightarrow> (string, real) dict" where
  "class_plan_of insts pos_max class_weight =
     (let s = sum_list (dict_values insts);
          intra = cap_position_weights (dict_map_values (\<lambda>v. v / s) insts) pos_max
      in dict_map_values (\<lambda>w. round6 (class_weight * w)) intra)"

definition order_of :: "string \<times> real \<Rightarrow> order" where
  "order_of p =
     \<lparr>ord_instrument_id = fst p,
      ord_action = (if 0 < snd p then INCREASE else HOLD),
      ord_target_weight = Some (snd p)\<rparr>"

text \<open>One iteration of the loop over \<open>by_class.items()\<close>.\<close>

definition add_class ::
  "(string, real) dict \<Rightarrow> real \<Rightarrow> plan \<Rightarrow> string \<times> (string, real) dict \<Rightarrow> plan" where
  "add_class target_alloc pos_max p ci =
     (let cls = fst ci; insts = snd ci
      in if insts = [] then p
         else if sum_list (dict_values insts) \<le> 0 then p
         else
           (let class_weight = max 0 (min 1 (dict_get_or target_alloc cls 0));
                class_plan = class_plan_of insts pos_max class_weight
            in \<lparr>classes = dict_set (classes p) cls class_plan,
                orders = orders p @ map order_of class_plan\<rparr>))"

definition build_plan :: "strategy \<Rightarrow> signal list \<Rightarrow> error + plan" where
  "build_plan strat signals =
     (let by_class = group_signals signals;
          target_alloc = alloc_target strat
      in case position_max_pct strat of
           None \<Rightarrow> Inl KeyError
         | Some pos_max \<Rightarrow>
             Inr (foldl (add_class target_alloc pos_max) \<lparr>classes = [], orders = []\<rparr> by_class))"

section \<open>interfaces/broker\_adapter/paper.py: the paper execution engine\<close>

text \<open>
  Instrument ids are ASCII strings: \<open>upper\<close> and \<open>strip\<close> are Python's
  \<open>str.upper\<close> and \<open>str.strip\<close> on that range.
\<close>

definition upper_char :: "char \<Rightarrow> char" where
  "upper_char c =
     (let n = (of_char c :: nat)
      in if 97 \<le> n \<and> n \<le> 122 then char_of (n - 32) else c)"

definition upper :: "string \<Rightarrow> string" where
  "upper s = map upper_char s"

definition is_space :: "char \<Rightarrow> bool" where
  "is_space c = ((of_char c :: nat) \<in> set [9, 10, 11, 12, 13, 28, 29, 30, 31, 32])"

definition strip :: "string \<Rightarrow> string" where
  "strip s = rev (dropWhile is_space (rev (dropWhile is_space s)))"

definition is_crypto :: "string \<Rightarrow> bool" where
  "is_crypto inst = (upper inst \<in> set [''BTC'', ''ETH'', ''SOL'', ''ADA'', ''DOGE''])"

definition FALLBACK_PRICE_MAP :: "(string, real) dict" where
  "FALLBACK_PRICE_MAP =
     [(''BTC'', 65000), (''ETH'', 3500), (''SOL'', 160), (''ADA'', 42 / 100), (''DOGE'', 15 / 100),
      (''VOO'', 520), (''QQQ'', 470), (''VGK'', 70), (''EZU'', 55),
      (''AAPL'', 2301 / 10), (''MSFT'', 4153 / 10), (''NVDA'', 1229 / 10),
      (''GOOGL'', 1751 / 10), (''AMZN'', 19075 / 100),
      (''ASML'', 1150), (''LVMH'', 730), (''SAP'', 200),
      (''IEF'', 100), (''TLT'', 100), (''SHY'', 100), (''IEGA'', 100), (''IEAC'', 100),
      (''LQD'', 100),
      (''VNQ'', 90), (''IPRP'', 6), (''PLD'', 120), (''O'', 55), (''SPG'', 150)]"

text \<open>
  What one call of the external \<open>latest_price\<close> does: it returns a number, returns
  \<open>None\<close>, or raises. Within one cycle the oracle is a function of the symbol.
\<close>

datatype oracle_result = Price real | NoPrice | Raises

type_synonym price_oracle = "string \<Rightarrow> oracle_result"

definition get_exec_price :: "price_oracle \<Rightarrow> string \<Rightarrow> real" where
  "get_exec_price latest_price inst =
     (let sym = upper (strip inst)
      in case latest_price sym of
           Price p \<Rightarrow> (if 0 < p then p else dict_get_or FALLBACK_PRICE_MAP sym 100)
         | NoPrice \<Rightarrow> dict_get_or FALLBACK_PRICE_MAP sym 100
         | Raises \<Rightarrow> dict_get_or FALLBACK_PRICE_MAP sym 100)"

record portfolio =
  cash_eur :: real
  positions :: "(string, real) dict"
  history :: "real list"

definition current_nav :: "portfolio \<Rightarrow> real" where
  "current_nav port = cash_eur port + sum_list (dict_values (positions port))"

text \<open>
  An execution record without its order id and timestamp (a fresh uuid and the clock).
\<close>

record execution =
  ex_instrument_id :: string
  ex_avg_fill :: real
  ex_qty :: real

record exec_state =
  st_cash :: real
  st_positions :: "(string, real) dict"
  st_executions :: "execution list"

text \<open>One iteration of the loop that builds the target-weight map from the plan's orders.\<close>

definition add_target :: "(string, real) dict \<Rightarrow> order \<Rightarrow> (string, real) dict" where
  "add_target target_w ord =
     (let inst = upper (strip (ord_instrument_id ord))
      in if inst = [] then target_w
         else
           (let tw = (case ord_target_weight ord of None \<Rightarrow> 0 | Some w \<Rightarrow> w)
            in dict_set target_w inst (max tw (dict_get_or target_w inst 0))))"

definition build_target_w :: "plan \<Rightarrow> (string, real) dict" where
  "build_target_w pl = foldl add_target [] (orders pl)"

text \<open>
  What one loop iteration decides: each \<open>continue\<close> of the source is a skip outcome, a
  trade carries the quantity and the executed value.
\<close>

datatype decision =
    SkipOnPlan
  | SkipNoHolding
  | SkipNoPrice
  | SkipNoDelta
  | SkipNoCash
  | SkipZeroQty
  | Buy real real
  | Sell real real

text \<open>
  The quantity for an amount: six decimals for a fractional instrument, whole units
  otherwise. The source floors (and rounds) the float quotient, which is the exact quotient
  of the two floats rounded to the nearest float; here it is the exact quotient. The two
  floors differ only when the exact quotient lies within half a unit in the last place
  below a whole number.
\<close>

definition lot_qty :: "string \<Rightarrow> real \<Rightarrow> real \<Rightarrow> real" where
  "lot_qty inst amount price =
     (if is_crypto inst then round6 (amount / price) else of_int \<lfloor>amount / price\<rfloor>)"

text \<open>Phase 1: sell everything held that the plan does not mention.\<close>

definition liquidate_decision ::
  "price_oracle \<Rightarrow> (string, real) dict \<Rightarrow> (string, real) dict \<Rightarrow> string \<Rightarrow> decision" where
  "liquidate_decision latest_price target_w pos inst =
     (if inst \<in> set (dict_keys target_w) then SkipOnPlan
      else
        (let cur_mv = dict_get_or pos inst 0
         in if cur_mv \<le> 0 then SkipNoHolding
            else
              (let price = get_exec_price latest_price inst
               in if price \<le> 0 then SkipNoPrice
                  else
                    (let qty = lot_qty inst cur_mv price
                     in if qty \<le> 0 then SkipZeroQty else Sell qty (qty * price)))))"

definition liquidate_step ::
  "price_oracle \<Rightarrow> (string, real) dict \<Rightarrow> exec_state \<Rightarrow> string \<Rightarrow> exec_state" where
  "liquidate_step latest_price target_w st inst =
     (case liquidate_decision latest_price target_w (st_positions st) inst of
        Sell qty exec_value \<Rightarrow>
          \<lparr>st_cash = st_cash st + exec_value,
           st_positions =
             dict_set (st_positions st) inst
               (max 0 (dict_get_or (st_positions st) inst 0 - exec_value)),
           st_executions = st_executions st @
             [\<lparr>ex_instrument_id = inst,
               ex_avg_fill = round6 (get_exec_price latest_price inst),
               ex_qty = round6 (- qty)\<rparr>]\<rparr>
      | _ \<Rightarrow> st)"

definition phase1 :: "price_oracle \<Rightarrow> (string, real) dict \<Rightarrow> exec_state \<Rightarrow> exec_state" where
  "phase1 latest_price target_w st =
     foldl (liquidate_step latest_price target_w) st (dict_keys (st_positions st))"

text \<open>Phase 2: move every instrument of the plan towards \<open>nav * target_weight\<close>.\<close>

definition rebalance_decision ::
  "price_oracle \<Rightarrow> real \<Rightarrow> exec_state \<Rightarrow> string \<Rightarrow> real \<Rightarrow> decision" where
  "rebalance_decision latest_price nav st inst tw =
     (let price = get_exec_price latest_price inst
      in if price \<le> 0 then SkipNoPrice
         else
           (let desired_mv = nav * tw;
                cur_mv = dict_get_or (st_positions st) inst 0;
                delta = desired_mv - cur_mv
            in if \<bar>delta\<bar> < 1 / 1000000 then SkipNoDelta
               else if 0 < delta then
                 (let buy_amt = min delta (st_cash st)
                  in if buy_amt \<le> 0 then SkipNoCash
                     else
                       (let qty = lot_qty inst buy_amt price
                        in if \<not> is_crypto inst \<and> qty \<le> 0 then SkipZeroQty
                           else Buy qty (qty * price)))
               else
                 (let sell_amt = min (- delta) cur_mv
                  in if sell_amt \<le> 0 then SkipNoHolding
                     else
                       (let qty = lot_qty inst sell_amt price
                        in if \<not> is_crypto inst \<and> qty \<le> 0 then SkipZeroQty
                           else Sell qty (qty * price)))))"

definition rebalance_step ::
  "price_oracle \<Rightarrow> real \<Rightarrow> exec_state \<Rightarrow> string \<times> real \<Rightarrow> exec_state" where
  "rebalance_step latest_price nav st it =
     (let inst = fst it; tw = snd it;
          cur_mv = dict_get_or (st_positions st) inst 0
      in case rebalance_decision latest_price nav st inst tw of
           Buy qty exec_value \<Rightarrow>
             \<lparr>st_cash = st_cash st - exec_value,
              st_positions = dict_set (st_positions st) inst (cur_mv + exec_value),
              st_executions = st_executions st @
                [\<lparr>ex_instrument_id = inst,
                  ex_avg_fill = round6 (get_exec_price latest_price inst),
                  ex_qty = round6 qty\<rparr>]\<rparr>
         | Sell qty exec_value \<Rightarrow>
             \<lparr>st_cash = st_cash st + exec_value,
              st_positions = dict_set (st_positions st) inst (cur_mv - exec_value),
              st_executions = st_executions st @
                [\<lparr>ex_instrument_id = inst,
                  ex_avg_fill = round6 (get_exec_price latest_price inst),
                  ex_qty = round6 (- qty)\<rparr>]\<rparr>
         | _ \<Rightarrow> st)"

definition phase2 :: "price_oracle \<Rightarrow> (string, real) dict \<Rightarrow> exec_state \<Rightarrow> exec_state" where
  "phase2 latest_price target_w st =
     (let nav = current_nav
            \<lparr>cash_eur = round6 (st_cash st), positions = st_positions st, history = []\<rparr>
      in foldl (rebalance_step latest_price nav) st target_w)"

text \<open>Phase 3: prune the positions below \<open>1e-6\<close> and the non-positive ones.\<close>

definition prune_positions :: "(string, real) dict \<Rightarrow> (string, real) dict" where
  "prune_positions pos =
     filter (\<lambda>kv. 0 < snd kv)
       (dict_map_values (\<lambda>v. if \<bar>v\<bar> < 1 / 1000000 then 0 else v) pos)"

text \<open>
  The cycle on a portfolio and a plan that were both read: the new portfolio and the
  execution records appended to the log.
\<close>

definition paper_main :: "price_oracle \<Rightarrow> portfolio \<Rightarrow> plan \<Rightarrow> portfolio \<times> execution list" where
  "paper_main latest_price port pl =
     (let target_w = build_target_w pl;
          st0 = \<lparr>st_cash = cash_eur port, st_positions = positions port, st_executions = []\<rparr>;
          st1 = phase1 latest_price target_w st0;
          st2 = phase2 latest_price target_w st1;
          pos = prune_positions (st_positions st2);
          port' = \<lparr>cash_eur = round6 (st_cash st2), positions = pos, history = history port\<rparr>;
          new_nav = current_nav port'
      in (port'\<lparr>history := history port @ [round6 new_nav]\<rparr>, st_executions st2))"

section \<open>run\_validate.py: the plan validator\<close>

text \<open>
  The diagnostics are formatted strings in the source; here each is a constructor that keeps
  the values the string is built from.
\<close>

datatype message =
    StrategyUnreadable
  | AllocTargetAbsent
  | AllocSumNonPositive
  | AllocSumNot100 real
  | PlanNotFound
  | PlanUnreadable
  | PlanNoClasses
  | UnknownClasses "string list"
  | MissingClasses "string list"
  | ClassOutOfBand string real real real
  | ClassOk string real real real
  | TotalNot100 real
  | TotalOk real
  | PositionAboveLimit string string real real
  | NoPositionAboveLimit real

datatype status = OK | FAIL

datatype 'a file_read = Missing | Unreadable | Loaded 'a

record report =
  rep_status :: status
  rep_class_sums :: "(string, real) dict"
  rep_total_weight :: real
  rep_warnings :: "message list"
  rep_errors :: "message list"
  rep_notes :: "message list"

definition strategy_errors :: "strategy file_read \<Rightarrow> message list" where
  "strategy_errors sfile = (case sfile of Loaded s \<Rightarrow> [] | _ \<Rightarrow> [StrategyUnreadable])"

definition strategy_of :: "strategy file_read \<Rightarrow> strategy" where
  "strategy_of sfile =
     (case sfile of
        Loaded s \<Rightarrow> s
      | _ \<Rightarrow> \<lparr>alloc_target = [], bands = None, position_max_pct = None\<rparr>)"

definition alloc_errors :: "(string, real) dict \<Rightarrow> message list" where
  "alloc_errors alloc =
     (if alloc = [] then [AllocTargetAbsent]
      else if sum_list (dict_values alloc) \<le> 0 then [AllocSumNonPositive]
      else [])"

definition alloc_warnings :: "(string, real) dict \<Rightarrow> message list" where
  "alloc_warnings alloc =
     (if alloc = [] then []
      else if sum_list (dict_values alloc) \<le> 0 then []
      else if 1 / 1000000 < \<bar>sum_list (dict_values alloc) - 1\<bar>
        then [AllocSumNot100 (sum_list (dict_values alloc))]
      else [])"

definition plan_errors :: "plan file_read \<Rightarrow> message list" where
  "plan_errors pfile =
     (case pfile of Missing \<Rightarrow> [PlanNotFound] | Unreadable \<Rightarrow> [PlanUnreadable] | Loaded p \<Rightarrow> [])"

definition classes_of :: "plan file_read \<Rightarrow> (string, (string, real) dict) dict" where
  "classes_of pfile = (case pfile of Loaded p \<Rightarrow> classes p | _ \<Rightarrow> [])"

definition unknown_classes ::
  "(string, real) dict \<Rightarrow> (string, (string, real) dict) dict \<Rightarrow> string list" where
  "unknown_classes alloc cls =
     sort (remdups (filter (\<lambda>k. k \<notin> set (dict_keys alloc)) (dict_keys cls)))"

definition missing_classes ::
  "(string, real) dict \<Rightarrow> (string, (string, real) dict) dict \<Rightarrow> string list" where
  "missing_classes alloc cls =
     sort (remdups (filter (\<lambda>k. k \<notin> set (dict_keys cls)) (dict_keys alloc)))"

definition class_sums_of :: "(string, (string, real) dict) dict \<Rightarrow> (string, real) dict" where
  "class_sums_of cls =
     foldl (\<lambda>acc ci. dict_set acc (fst ci) (sum_list (dict_values (snd ci)))) [] cls"

definition out_of_band :: "(string, real) dict \<Rightarrow> real \<Rightarrow> string \<times> real \<Rightarrow> bool" where
  "out_of_band class_sums bnd ct =
     (let actual = dict_get_or class_sums (fst ct) 0;
          lo = snd ct - bnd;
          hi = snd ct + bnd
      in actual < lo - 1 / 1000000 \<or> hi + 1 / 1000000 < actual)"

definition band_errors :: "(string, real) dict \<Rightarrow> (string, real) dict \<Rightarrow> real \<Rightarrow> message list" where
  "band_errors alloc class_sums bnd =
     map (\<lambda>ct. ClassOutOfBand (fst ct) (snd ct) (dict_get_or class_sums (fst ct) 0) bnd)
       (filter (out_of_band class_sums bnd) alloc)"

definition band_notes :: "(string, real) dict \<Rightarrow> (string, real) dict \<Rightarrow> real \<Rightarrow> message list" where
  "band_notes alloc class_sums bnd =
     map (\<lambda>ct. ClassOk (fst ct) (snd ct) (dict_get_or class_sums (fst ct) 0) bnd)
       (filter (\<lambda>ct. \<not> out_of_band class_sums bnd ct) alloc)"

definition violators ::
  "(string, (string, real) dict) dict \<Rightarrow> real \<Rightarrow> (string \<times> string \<times> real) list" where
  "violators cls pos_max =
     concat (map (\<lambda>ci. map (\<lambda>iw. (fst iw, fst ci, snd iw))
                          (filter (\<lambda>iw. pos_max + 1 / 1000000000 < snd iw) (snd ci))) cls)"

definition position_errors ::
  "(string, (string, real) dict) dict \<Rightarrow> real \<Rightarrow> message list" where
  "position_errors cls pos_max =
     map (\<lambda>v. PositionAboveLimit (fst v) (fst (snd v)) (snd (snd v)) pos_max)
       (sort_key (\<lambda>v. - snd (snd v)) (violators cls pos_max))"

definition run_validate_main :: "strategy file_read \<Rightarrow> plan file_read \<Rightarrow> report" where
  "run_validate_main sfile pfile =
     (let strat = strategy_of sfile;
          alloc = alloc_target strat;
          bnd = (case bands strat of None \<Rightarrow> 0 | Some b \<Rightarrow> b);
          pos_max = (case position_max_pct strat of None \<Rightarrow> 1 | Some m \<Rightarrow> m);
          cls = classes_of pfile;
          unknown = unknown_classes alloc cls;
          missing = missing_classes alloc cls;
          class_sums = class_sums_of cls;
          total_weight = sum_list (dict_values class_sums);
          errors =
            strategy_errors sfile @ alloc_errors alloc @ plan_errors pfile
            @ (if cls = [] then [PlanNoClasses] else [])
            @ band_errors alloc class_sums bnd
            @ (if 1 / 1000 < \<bar>total_weight - 1\<bar> then [TotalNot100 total_weight] else [])
            @ position_errors cls pos_max;
          warnings =
            alloc_warnings alloc
            @ (if unknown \<noteq> [] then [UnknownClasses unknown] else [])
            @ (if missing \<noteq> [] then [MissingClasses missing] else []);
          notes =
            band_notes alloc class_sums bnd
            @ (if 1 / 1000 < \<bar>total_weight - 1\<bar> then [] else [TotalOk total_weight])
            @ (if violators cls pos_max = [] then [NoPositionAboveLimit pos_max] else [])
      in \<lparr>rep_status = (if errors = [] then OK else FAIL),
          rep_class_sums = class_sums,
          rep_total_weight = total_weight,
          rep_warnings = warnings,
          rep_errors = errors,
          rep_notes = notes\<rparr>)"

section \<open>Auxiliary predicates\<close>

text \<open>Every confidence stored by the grouping loop is non-negative.\<close>

definition nonneg_classes :: "(string, (string, real) dict) dict \<Rightarrow> bool" where
  "nonneg_classes by_class =
     (\<forall>ci \<in> set by_class. \<forall>v \<in> set (dict_values (snd ci)). 0 \<le> v)"

section \<open>Concrete inputs\<close>

definition buy_signal :: "string \<Rightarrow> real \<Rightarrow> signal" where
  "buy_signal inst conf =
     \<lparr>sig_instrument_id = inst, sig_side = ''BUY'', sig_confidence = Some conf,
      sig_rationale = [], sig_ttl_days = 0\<rparr>"

definition policy :: "(string, real) dict \<Rightarrow> real \<Rightarrow> real \<Rightarrow> strategy" where
  "policy alloc bnd pos_max =
     \<lparr>alloc_target = alloc, bands = Some bnd, position_max_pct = Some pos_max\<rparr>"

definition target_order :: "string \<Rightarrow> real \<Rightarrow> order" where
  "target_order inst w =
     \<lparr>ord_instrument_id = inst, ord_action = INCREASE, ord_target_weight = Some w\<rparr>"

definition orders_plan :: "order list \<Rightarrow> plan" where
  "orders_plan os = \<lparr>classes = [], orders = os\<rparr>"

definition classes_plan :: "(string, (string, real) dict) dict \<Rightarrow> plan" where
  "classes_plan cls = \<lparr>classes = cls, orders = []\<rparr>"

definition seven_equities :: "signal list" where
  "seven_equities =
     map (\<lambda>inst. buy_signal inst (1 / 2))
       [''AAPL'', ''MSFT'', ''NVDA'', ''GOOGL'', ''AMZN'', ''ASML'', ''SAP'']"

text \<open>A price source that knows one symbol and returns \<open>None\<close> for every other.\<close>

definition quote :: "string \<Rightarrow> real \<Rightarrow> price_oracle" where
  "quote inst p = (\<lambda>sym. if sym = inst then Price p else NoPrice)"

text \<open>The floats nearest to \<open>153.92\<close> and \<open>11.84\<close>, as the exact numbers they are.\<close>

definition float_153_92 :: real where
  "float_153_92 = 5415578551913021 / 35184372088832"

definition float_11_84 :: real where
  "float_11_84 = 3332663724254167 / 281474976710656"

definition cash_only :: "real \<Rightarrow> portfolio" where
  "cash_only c = \<lparr>cash_eur = c, positions = [], history = []\<rparr>"

definition holding :: "string \<Rightarrow> real \<Rightarrow> exec_state" where
  "holding inst mv = \<lparr>st_cash = 0, st_positions = [(inst, mv)], st_executions = []\<rparr>"

section \<open>The position cap of the plan builder\<close>

text \<open>
  C1 (the claim: every target weight of a plan is at most \<open>position_max_pct\<close>, within
  \<open>1e-9\<close>). The code caps the intra-class weights and then divides by their sum, which
  undoes the cap; the class weight is applied afterwards. With the policy
  \<open>equities: 0.6\<close>, \<open>position_max_pct = 0.1\<close> and the single signal \<open>AAPL\<close> of
  confidence \<open>0.8\<close>, the plan gives \<open>AAPL\<close> the weight \<open>0.6\<close>, above \<open>0.1 + 1e-9\<close>.
\<close>

theorem build_plan_exceeds_position_max:
  "build_plan (policy [(''equities'', 6 / 10)] (5 / 100) (1 / 10)) [buy_signal ''AAPL'' (8 / 10)]
     = Inr \<lparr>classes = [(''equities'', [(''AAPL'', 6 / 10)])],
            orders = [target_order ''AAPL'' (6 / 10)]\<rparr>
   \<and> \<not> ((6 / 10 :: real) \<le> 1 / 10 + 1 / 1000000000)"
  by code_simp

section \<open>The cash of the portfolio after a cycle\<close>

text \<open>
  C2 (the claim: after a cycle \<open>cash \<ge> 0\<close> and the recorded nav is cash plus positions).
  A purchase is limited to \<open>min(delta, cash)\<close>, but the quantity of a fractional
  instrument is rounded to six decimals, possibly upwards, and the executed value is
  quantity times price. With cash \<open>1000\<close>, no positions, the single target \<open>BTC: 1.0\<close>
  and the price \<open>65000\<close>, the quantity is \<open>0.015385\<close>, the executed value \<open>1000.025\<close>
  and the cycle ends with cash \<open>-0.025\<close>.
\<close>

theorem paper_main_negative_cash:
  "fst (paper_main (quote ''BTC'' 65000) (cash_only 1000) (orders_plan [target_order ''BTC'' 1]))
     = \<lparr>cash_eur = - (25 / 1000), positions = [(''BTC'', 1000 + 25 / 1000)], history = [1000]\<rparr>
   \<and> snd (paper_main (quote ''BTC'' 65000) (cash_only 1000) (orders_plan [target_order ''BTC'' 1]))
     = [\<lparr>ex_instrument_id = ''BTC'', ex_avg_fill = 65000, ex_qty = 15385 / 1000000\<rparr>]
   \<and> (- (25 / 1000) :: real) < 0"
  by code_simp

section \<open>Scenario C: buying a whole number of units\<close>

text \<open>
  C9: from cash \<open>1000\<close> and no positions, with the single target \<open>AAPL: 1.0\<close> and a price
  source that returns \<open>100\<close> for \<open>AAPL\<close>, one cycle buys \<open>10\<close> units at \<open>100\<close> and ends
  with the position \<open>AAPL = 1000\<close> and cash \<open>0\<close>.
\<close>

theorem paper_main_scenario_c:
  assumes "latest_price ''AAPL'' = Price 100"
  shows "paper_main latest_price (cash_only 1000) (orders_plan [target_order ''AAPL'' 1])
     = (\<lparr>cash_eur = 0, positions = [(''AAPL'', 1000)], history = [1000]\<rparr>,
        [\<lparr>ex_instrument_id = ''AAPL'', ex_avg_fill = 100, ex_qty = 10\<rparr>])"
proof -
  have norm: "upper (strip ''AAPL'') = ''AAPL''"
    by code_simp
  have price: "get_exec_price latest_price ''AAPL'' = 100"
    by (simp add: get_exec_price_def norm assms)
  have tw: "build_target_w (orders_plan [target_order ''AAPL'' 1]) = [(''AAPL'', 1)]"
    by code_simp
  have nocrypto: "\<not> is_crypto ''AAPL''"
    by code_simp
  have r0: "round6 0 = 0" and r10: "round6 10 = 10" and r100: "round6 100 = 100"
    and r1000: "round6 1000 = 1000"
    by (simp_all add: round6_def round_half_even_def)
  have p1: "phase1 latest_price [(''AAPL'', 1)]
              \<lparr>st_cash = 1000, st_positions = [], st_executions = []\<rparr>
            = \<lparr>st_cash = 1000, st_positions = [], st_executions = []\<rparr>"
    by (simp add: phase1_def dict_keys_def)
  have dec: "rebalance_decision latest_price 1000
               \<lparr>st_cash = 1000, st_positions = [], st_executions = []\<rparr> ''AAPL'' 1
             = Buy 10 1000"
    by (simp add: rebalance_decision_def price dict_get_or_def lot_qty_def nocrypto)
  have p2: "phase2 latest_price [(''AAPL'', 1)]
              \<lparr>st_cash = 1000, st_positions = [], st_executions = []\<rparr>
            = \<lparr>st_cash = 0, st_positions = [(''AAPL'', 1000)],
               st_executions = [\<lparr>ex_instrument_id = ''AAPL'', ex_avg_fill = 100, ex_qty = 10\<rparr>]\<rparr>"
    by (simp add: phase2_def current_nav_def dict_values_def rebalance_step_def dec price
        dict_get_or_def r10 r100 r1000 Let_def)
  have pr: "prune_positions [(''AAPL'', 1000)] = [(''AAPL'', 1000)]"
    by (simp add: prune_positions_def dict_map_values_def)
  show ?thesis
    by (simp add: paper_main_def tw cash_only_def p1 p2 pr current_nav_def dict_values_def
        r0 r1000 Let_def)
qed

theorem paper_main_scenario_c_witness:
  "quote ''AAPL'' 100 ''AAPL'' = Price 100
   \<and> paper_main (quote ''AAPL'' 100) (cash_only 1000) (orders_plan [target_order ''AAPL'' 1])
     = (\<lparr>cash_eur = 0, positions = [(''AAPL'', 1000)], history = [1000]\<rparr>,
        [\<lparr>ex_instrument_id = ''AAPL'', ex_avg_fill = 100, ex_qty = 10\<rparr>])"
proof -
  have h: "quote ''AAPL'' 100 ''AAPL'' = Price 100"
    by (simp add: quote_def)
  show ?thesis
    using h paper_main_scenario_c [of "quote ''AAPL'' 100"] by simp
qed

section \<open>The execution price is always usable\<close>

lemma dict_get_or_pos:
  fixes d :: "('k, real) dict"
  assumes "\<And>v. v \<in> set (dict_values d) \<Longrightarrow> 0 < v" and "0 < dflt"
  shows "0 < dict_get_or d k dflt"
proof (cases "map_of d k")
  case None
  then show ?thesis by (simp add: dict_get_or_def assms(2))
next
  case (Some v)
  then have "(k, v) \<in> set d" by (rule map_of_SomeD)
  then have "v \<in> set (dict_values d)" by (force simp: dict_values_def)
  with assms(1) Some show ?thesis by (simp add: dict_get_or_def)
qed

lemma fallback_price_pos: "0 < dict_get_or FALLBACK_PRICE_MAP s 100"
  by (rule dict_get_or_pos) (auto simp: FALLBACK_PRICE_MAP_def dict_values_def)

lemma get_exec_price_pos: "0 < get_exec_price latest_price inst"
  by (simp add: get_exec_price_def Let_def fallback_price_pos split: oracle_result.split)

text \<open>
  C10: whatever the external price source does for a symbol (a number, \<open>None\<close>, or an
  exception), \<open>get_exec_price\<close> returns a strictly positive price: a positive quote, else
  the fallback table, else \<open>100\<close>. Hence neither loop ever takes its \<open>price \<le> 0\<close> skip.
\<close>

theorem get_exec_price_positive:
  "0 < get_exec_price latest_price inst
   \<and> liquidate_decision latest_price target_w pos inst \<noteq> SkipNoPrice
   \<and> rebalance_decision latest_price nav st inst tw \<noteq> SkipNoPrice"
proof -
  have p: "\<not> get_exec_price latest_price inst \<le> 0"
    using get_exec_price_pos [of latest_price inst] by simp
  have l: "liquidate_decision latest_price target_w pos inst \<noteq> SkipNoPrice"
    by (simp add: liquidate_decision_def Let_def p)
  have r: "rebalance_decision latest_price nav st inst tw \<noteq> SkipNoPrice"
    by (simp add: rebalance_decision_def Let_def p)
  from get_exec_price_pos l r show ?thesis by blast
qed

theorem get_exec_price_positive_witness:
  "0 < get_exec_price (\<lambda>s. Raises) ''XYZ''
   \<and> 0 < get_exec_price (quote ''XYZ'' (- 5)) ''XYZ''
   \<and> liquidate_decision (\<lambda>s. NoPrice) [] [(''XYZ'', 250)] ''XYZ'' \<noteq> SkipNoPrice
   \<and> rebalance_decision (\<lambda>s. Raises) 1000 (holding ''XYZ'' 250) ''XYZ'' 1 \<noteq> SkipNoPrice"
  using get_exec_price_positive [of "\<lambda>s. Raises" "''XYZ''" "[]" "[(''XYZ'', 250)]" 1000 "holding ''XYZ'' 250" 1]
    get_exec_price_positive [of "quote ''XYZ'' (- 5)" "''XYZ''" "[]" "[]" 0 "holding ''XYZ'' 250" 0]
    get_exec_price_positive [of "\<lambda>s. NoPrice" "''XYZ''" "[]" "[(''XYZ'', 250)]" 1000 "holding ''XYZ'' 250" 1]
  by blast

section \<open>Facts about dicts\<close>

lemma map_of_dict_set: "map_of (dict_set d k v) = (map_of d)(k \<mapsto> v)"
  by (induction d) (auto simp: fun_eq_iff)

lemma set_dict_set_subset: "set (dict_set d k v) \<subseteq> insert (k, v) (set d)"
  by (induction d) (auto split: if_splits)

lemma dict_keys_dict_set:
  "dict_keys (dict_set d k v) = (if k \<in> set (dict_keys d) then dict_keys d else dict_keys d @ [k])"
  by (induction d) (force simp: dict_keys_def)+

lemma distinct_dict_set:
  "distinct (dict_keys d) \<Longrightarrow> distinct (dict_keys (dict_set d k v))"
  by (simp add: dict_keys_dict_set)

lemma dict_get_or_absent: "k \<notin> set (dict_keys d) \<Longrightarrow> dict_get_or d k dflt = dflt"
proof -
  assume "k \<notin> set (dict_keys d)"
  then have "map_of d k = None"
    by (simp add: dict_keys_def map_of_eq_None_iff)
  then show ?thesis by (simp add: dict_get_or_def)
qed

lemma dict_map_values_comp:
  "dict_map_values f (dict_map_values g d) = dict_map_values (\<lambda>v. f (g v)) d"
  by (induction d) (auto simp: dict_map_values_def)

lemma dict_values_map_values: "dict_values (dict_map_values f d) = map f (dict_values d)"
  by (induction d) (auto simp: dict_map_values_def dict_values_def)

lemma length_dict_map_values: "length (dict_map_values f d) = length d"
  by (simp add: dict_map_values_def)

section \<open>Facts about rounding\<close>

lemma round_half_even_err: "\<bar>of_int (round_half_even y) - y\<bar> \<le> 1 / 2"
proof -
  have "of_int \<lfloor>y\<rfloor> \<le> y" and "y < of_int \<lfloor>y\<rfloor> + 1"
    by linarith+
  then show ?thesis
    by (auto simp: round_half_even_def Let_def)
qed

lemma round6_err: "\<bar>round6 x - x\<bar> \<le> 1 / 2000000"
proof -
  have "\<bar>of_int (round_half_even (x * 1000000)) - x * 1000000\<bar> \<le> 1 / 2"
    by (rule round_half_even_err)
  then show ?thesis
    by (simp add: round6_def abs_le_iff field_simps)
qed

lemma round6_zero: "round6 0 = 0"
  by (simp add: round6_def round_half_even_def)

section \<open>Phase 1: a whole unit left unsold\<close>

text \<open>
  C4 (the claim: after Phase 1 an instrument that is held with a positive market value and
  that the plan does not mention keeps no market value). The loop is commented as selling
  100 percent, with a quantity meant to bring the position to zero, but the quantity is
  the floor of \<open>cur_mv / price\<close>. A position of 13 units of \<open>XYZ\<close> bought at \<open>11.84\<close> is
  stored as \<open>13 * 11.84\<close>, the float \<open>153.92\<close>; at the same price the quotient of the two
  floats is just below 13, so Phase 1 sells 12 units and the position keeps the value of
  about one unit.
\<close>

theorem phase1_keeps_a_whole_unit:
  "''XYZ'' \<notin> set (dict_keys (build_target_w (orders_plan [])))
   \<and> get_exec_price (quote ''XYZ'' float_11_84) ''XYZ'' = float_11_84
   \<and> lot_qty ''XYZ'' float_153_92 float_11_84 = 12
   \<and> st_executions (phase1 (quote ''XYZ'' float_11_84) (build_target_w (orders_plan []))
         (holding ''XYZ'' float_153_92))
       = [\<lparr>ex_instrument_id = ''XYZ'', ex_avg_fill = 1184 / 100, ex_qty = - 12\<rparr>]
   \<and> 1183 / 100 < dict_get_or (st_positions (phase1 (quote ''XYZ'' float_11_84)
         (build_target_w (orders_plan [])) (holding ''XYZ'' float_153_92))) ''XYZ'' 0"
  by code_simp

section \<open>The grouping of signals by class\<close>

lemma add_signal_distinct:
  "distinct (dict_keys by_class) \<Longrightarrow> distinct (dict_keys (add_signal by_class s))"
  by (simp add: add_signal_def Let_def distinct_dict_set)

lemma foldl_add_signal_distinct:
  "distinct (dict_keys by_class) \<Longrightarrow> distinct (dict_keys (foldl add_signal by_class signals))"
  by (induction signals arbitrary: by_class) (simp_all add: add_signal_distinct)

lemma group_signals_distinct: "distinct (dict_keys (group_signals signals))"
  unfolding group_signals_def
  by (rule foldl_add_signal_distinct) (simp add: dict_keys_def)

lemma dict_get_or_in_set:
  "dict_get_or d k dflt = dflt \<or> (k, dict_get_or d k dflt) \<in> set d"
  by (cases "map_of d k") (auto simp: dict_get_or_def dest: map_of_SomeD)

lemma add_signal_nonneg:
  assumes "nonneg_classes by_class"
  shows "nonneg_classes (add_signal by_class s)"
proof -
  let ?cls = "infer_class (sig_instrument_id s)"
  let ?conf = "case sig_confidence s of None \<Rightarrow> 1 / 2 | Some c \<Rightarrow> c"
  let ?insts = "dict_get_or by_class ?cls []"
  let ?new = "dict_set ?insts (sig_instrument_id s)
                (max ?conf (dict_get_or ?insts (sig_instrument_id s) 0))"
  have old: "\<forall>v \<in> set (dict_values ?insts). 0 \<le> v"
  proof (cases "?insts = []")
    case True
    then show ?thesis by (simp add: dict_values_def)
  next
    case False
    with dict_get_or_in_set [of by_class ?cls "[]"]
    have "(?cls, ?insts) \<in> set by_class" by auto
    with assms show ?thesis by (force simp: nonneg_classes_def)
  qed
  have val: "0 \<le> max ?conf (dict_get_or ?insts (sig_instrument_id s) 0)"
  proof -
    have "0 \<le> dict_get_or ?insts (sig_instrument_id s) 0"
      using dict_get_or_in_set [of ?insts "sig_instrument_id s" 0] old
      by (force simp: dict_values_def)
    then show ?thesis by simp
  qed
  have new: "\<forall>v \<in> set (dict_values ?new). 0 \<le> v"
  proof
    fix v assume "v \<in> set (dict_values ?new)"
    then obtain k where "(k, v) \<in> set ?new" by (auto simp: dict_values_def)
    with set_dict_set_subset [of ?insts]
    have "(k, v) \<in> set ?insts \<or> v = max ?conf (dict_get_or ?insts (sig_instrument_id s) 0)"
      by auto
    with old val show "0 \<le> v" by (force simp: dict_values_def)
  qed
  have "add_signal by_class s = dict_set by_class ?cls ?new"
    by (simp add: add_signal_def Let_def)
  moreover have "set (dict_set by_class ?cls ?new) \<subseteq> insert (?cls, ?new) (set by_class)"
    by (rule set_dict_set_subset)
  ultimately show ?thesis
    using assms new unfolding nonneg_classes_def by auto
qed

lemma foldl_add_signal_nonneg:
  "nonneg_classes by_class \<Longrightarrow> nonneg_classes (foldl add_signal by_class signals)"
  by (induction signals arbitrary: by_class) (simp_all add: add_signal_nonneg)

lemma group_signals_nonneg: "nonneg_classes (group_signals signals)"
  unfolding group_signals_def
  by (rule foldl_add_signal_nonneg) (simp add: nonneg_classes_def)

section \<open>The loop over the classes\<close>

lemma add_class_skip:
  "snd ci = [] \<or> sum_list (dict_values (snd ci)) \<le> 0 \<Longrightarrow> add_class ta pm p ci = p"
  by (auto simp: add_class_def Let_def)

lemma add_class_emit:
  assumes "0 < sum_list (dict_values (snd ci))"
  shows "add_class ta pm p ci =
           \<lparr>classes = dict_set (classes p) (fst ci)
                         (class_plan_of (snd ci) pm (max 0 (min 1 (dict_get_or ta (fst ci) 0)))),
            orders = orders p @
                       map order_of (class_plan_of (snd ci) pm (max 0 (min 1 (dict_get_or ta (fst ci) 0))))\<rparr>"
proof -
  from assms have "snd ci \<noteq> []" by (auto simp: dict_values_def)
  with assms show ?thesis by (simp add: add_class_def Let_def)
qed

lemma foldl_add_class_classes:
  assumes "(cls, cp) \<in> set (classes (foldl (add_class ta pm) p by_class))"
  shows "(cls, cp) \<in> set (classes p)
       \<or> (\<exists>insts. (cls, insts) \<in> set by_class \<and> 0 < sum_list (dict_values insts)
            \<and> cp = class_plan_of insts pm (max 0 (min 1 (dict_get_or ta cls 0))))"
  using assms
proof (induction by_class arbitrary: p)
  case Nil
  then show ?case by simp
next
  case (Cons ci by_class)
  from Cons.prems have "(cls, cp) \<in> set (classes (foldl (add_class ta pm) (add_class ta pm p ci) by_class))"
    by simp
  from Cons.IH [OF this] show ?case
  proof
    assume in_step: "(cls, cp) \<in> set (classes (add_class ta pm p ci))"
    show ?thesis
    proof (cases "0 < sum_list (dict_values (snd ci))")
      case True
      let ?cp = "class_plan_of (snd ci) pm (max 0 (min 1 (dict_get_or ta (fst ci) 0)))"
      from in_step True have "(cls, cp) \<in> set (dict_set (classes p) (fst ci) ?cp)"
        by (simp add: add_class_emit)
      with set_dict_set_subset [of "classes p" "fst ci" ?cp]
      have "(cls, cp) \<in> set (classes p) \<or> (cls = fst ci \<and> cp = ?cp)" by auto
      then show ?thesis
      proof
        assume "cls = fst ci \<and> cp = ?cp"
        with True have "(cls, snd ci) \<in> set (ci # by_class) \<and> 0 < sum_list (dict_values (snd ci))
            \<and> cp = class_plan_of (snd ci) pm (max 0 (min 1 (dict_get_or ta cls 0)))"
          by auto
        then show ?thesis by blast
      qed simp
    next
      case False
      then have "add_class ta pm p ci = p" by (simp add: add_class_skip)
      with in_step show ?thesis by simp
    qed
  next
    assume "\<exists>insts. (cls, insts) \<in> set by_class \<and> 0 < sum_list (dict_values insts)
            \<and> cp = class_plan_of insts pm (max 0 (min 1 (dict_get_or ta cls 0)))"
    then show ?thesis by auto
  qed
qed

lemma foldl_add_class_other:
  assumes "cls \<notin> set (dict_keys by_class)"
  shows "map_of (classes (foldl (add_class ta pm) p by_class)) cls = map_of (classes p) cls"
  using assms
proof (induction by_class arbitrary: p)
  case Nil
  then show ?case by simp
next
  case (Cons ci by_class)
  then have ne: "fst ci \<noteq> cls" and rest: "cls \<notin> set (dict_keys by_class)"
    by (auto simp: dict_keys_def)
  have "map_of (classes (add_class ta pm p ci)) cls = map_of (classes p) cls"
  proof (cases "0 < sum_list (dict_values (snd ci))")
    case True
    then show ?thesis using ne by (simp add: add_class_emit map_of_dict_set)
  next
    case False
    then show ?thesis by (simp add: add_class_skip)
  qed
  with Cons.IH [OF rest, of "add_class ta pm p ci"] show ?case by simp
qed

lemma foldl_add_class_orders:
  "set (orders p) \<subseteq> set (orders (foldl (add_class ta pm) p by_class))"
proof (induction by_class arbitrary: p)
  case Nil
  then show ?case by simp
next
  case (Cons ci by_class)
  have "set (orders p) \<subseteq> set (orders (add_class ta pm p ci))"
    by (cases "0 < sum_list (dict_values (snd ci))") (auto simp: add_class_emit add_class_skip)
  with Cons.IH [of "add_class ta pm p ci"] show ?case by auto
qed

lemma foldl_add_class_present:
  assumes "distinct (dict_keys by_class)" and "(cls, insts) \<in> set by_class"
    and "0 < sum_list (dict_values insts)"
  shows "map_of (classes (foldl (add_class ta pm) p by_class)) cls
           = Some (class_plan_of insts pm (max 0 (min 1 (dict_get_or ta cls 0))))
       \<and> set (map order_of (class_plan_of insts pm (max 0 (min 1 (dict_get_or ta cls 0)))))
           \<subseteq> set (orders (foldl (add_class ta pm) p by_class))"
  using assms(1,2)
proof (induction by_class arbitrary: p)
  case Nil
  then show ?case by simp
next
  case (Cons ci by_class)
  let ?cp = "class_plan_of insts pm (max 0 (min 1 (dict_get_or ta cls 0)))"
  from Cons.prems(1) have d: "distinct (dict_keys by_class)"
    and n: "fst ci \<notin> set (dict_keys by_class)"
    by (simp_all add: dict_keys_def)
  show ?case
  proof (cases "ci = (cls, insts)")
    case True
    then have step: "add_class ta pm p ci =
        \<lparr>classes = dict_set (classes p) cls ?cp, orders = orders p @ map order_of ?cp\<rparr>"
      using assms(3) by (simp add: add_class_emit)
    from True n have "cls \<notin> set (dict_keys by_class)" by simp
    then have "map_of (classes (foldl (add_class ta pm) (add_class ta pm p ci) by_class)) cls
               = map_of (classes (add_class ta pm p ci)) cls"
      by (rule foldl_add_class_other)
    then have m: "map_of (classes (foldl (add_class ta pm) p (ci # by_class))) cls = Some ?cp"
      by (simp add: step map_of_dict_set)
    have "set (map order_of ?cp) \<subseteq> set (orders (add_class ta pm p ci))"
      by (simp add: step)
    with foldl_add_class_orders [of "add_class ta pm p ci" ta pm by_class]
    have "set (map order_of ?cp) \<subseteq> set (orders (foldl (add_class ta pm) p (ci # by_class)))"
      by simp
    with m show ?thesis by blast
  next
    case False
    with Cons.prems(2) have "(cls, insts) \<in> set by_class" by simp
    from Cons.IH [OF d this, of "add_class ta pm p ci"] show ?thesis by simp
  qed
qed

section \<open>A class without a policy entry\<close>

lemma cap_position_weights_as_map:
  "\<exists>g. cap_position_weights w m = dict_map_values g w"
proof (cases "sum_list (dict_values (dict_map_values (\<lambda>v. min v m) w)) = 0")
  case True
  then have "cap_position_weights w m = dict_map_values (\<lambda>v. min v m) w"
    by (simp add: cap_position_weights_def Let_def)
  then show ?thesis by blast
next
  case False
  then have "cap_position_weights w m =
      dict_map_values (\<lambda>v. min v m / sum_list (dict_values (dict_map_values (\<lambda>v. min v m) w))) w"
    by (simp add: cap_position_weights_def Let_def dict_map_values_comp)
  then show ?thesis by blast
qed

lemma class_plan_of_zero: "class_plan_of insts pm 0 = dict_map_values (\<lambda>w. 0) insts"
proof -
  obtain g where
    "cap_position_weights (dict_map_values (\<lambda>v. v / sum_list (dict_values insts)) insts) pm
       = dict_map_values g (dict_map_values (\<lambda>v. v / sum_list (dict_values insts)) insts)"
    using cap_position_weights_as_map by blast
  then show ?thesis
    by (simp add: class_plan_of_def Let_def dict_map_values_comp round6_zero)
qed

text \<open>
  C5, as amended: a class whose signals have a positive confidence sum and that the policy's
  \<open>alloc_target\<close> does not mention is kept in the plan with the class weight \<open>0\<close>: it is a
  key of \<open>plan.classes\<close>, each of its instruments has the weight \<open>0\<close>, and each gets a
  \<open>HOLD\<close> order with target weight \<open>0\<close>.
\<close>

theorem build_plan_keeps_unlisted_class:
  assumes "build_plan strat signals = Inr p"
    and "dict_get (group_signals signals) cls = Some insts"
    and "0 < sum_list (dict_values insts)"
    and "cls \<notin> set (dict_keys (alloc_target strat))"
  shows "dict_get (classes p) cls = Some (dict_map_values (\<lambda>w. 0) insts)
       \<and> (\<forall>inst \<in> set (dict_keys insts).
            \<lparr>ord_instrument_id = inst, ord_action = HOLD, ord_target_weight = Some 0\<rparr>
              \<in> set (orders p))"
proof -
  from assms(1) obtain pm where pm: "position_max_pct strat = Some pm"
    and p: "p = foldl (add_class (alloc_target strat) pm) \<lparr>classes = [], orders = []\<rparr>
                  (group_signals signals)"
    by (auto simp: build_plan_def Let_def split: option.splits)
  from assms(2) have mem: "(cls, insts) \<in> set (group_signals signals)"
    by (simp add: dict_get_def map_of_SomeD)
  have w0: "max 0 (min 1 (dict_get_or (alloc_target strat) cls 0)) = 0"
    using assms(4) by (simp add: dict_get_or_absent)
  from foldl_add_class_present [OF group_signals_distinct mem assms(3),
      of "alloc_target strat" pm "\<lparr>classes = [], orders = []\<rparr>"]
  have c: "map_of (classes p) cls = Some (dict_map_values (\<lambda>w. 0) insts)"
    and o: "set (map order_of (dict_map_values (\<lambda>w. 0) insts)) \<subseteq> set (orders p)"
    by (simp_all add: p w0 class_plan_of_zero)
  have "\<lparr>ord_instrument_id = inst, ord_action = HOLD, ord_target_weight = Some 0\<rparr> \<in> set (orders p)"
    if "inst \<in> set (dict_keys insts)" for inst
  proof -
    from that obtain v where "(inst, v) \<in> set insts" by (auto simp: dict_keys_def)
    then have "(inst, 0 :: real) \<in> set (dict_map_values (\<lambda>w. 0) insts)"
      by (force simp: dict_map_values_def)
    then have "order_of (inst, 0) \<in> set (map order_of (dict_map_values (\<lambda>w. 0) insts))"
      by simp
    with o show ?thesis by (auto simp: order_of_def)
  qed
  with c show ?thesis by (simp add: dict_get_def)
qed

theorem build_plan_keeps_unlisted_class_witness:
  "build_plan (policy [(''equities'', 1)] (5 / 100) 1) [buy_signal ''BTC'' (6 / 10)]
     = Inr \<lparr>classes = [(''crypto'', [(''BTC'', 0)])],
            orders = [\<lparr>ord_instrument_id = ''BTC'', ord_action = HOLD, ord_target_weight = Some 0\<rparr>]\<rparr>
   \<and> dict_get (group_signals [buy_signal ''BTC'' (6 / 10)]) ''crypto'' = Some [(''BTC'', 6 / 10)]
   \<and> (0 :: real) < sum_list (dict_values [(''BTC'', 6 / 10)])
   \<and> ''crypto'' \<notin> set (dict_keys (alloc_target (policy [(''equities'', 1)] (5 / 100) 1)))
   \<and> dict_get [(''crypto'', [(''BTC'', 0 :: real)])] ''crypto''
       = Some (dict_map_values (\<lambda>w. 0) [(''BTC'', 6 / 10 :: real)])
   \<and> \<lparr>ord_instrument_id = ''BTC'', ord_action = HOLD, ord_target_weight = Some 0\<rparr>
       \<in> set [\<lparr>ord_instrument_id = ''BTC'', ord_action = HOLD, ord_target_weight = Some 0\<rparr>]"
proof -
  have h1: "build_plan (policy [(''equities'', 1)] (5 / 100) 1) [buy_signal ''BTC'' (6 / 10)]
     = Inr \<lparr>classes = [(''crypto'', [(''BTC'', 0)])],
            orders = [\<lparr>ord_instrument_id = ''BTC'', ord_action = HOLD, ord_target_weight = Some 0\<rparr>]\<rparr>"
    by code_simp
  have h2: "dict_get (group_signals [buy_signal ''BTC'' (6 / 10)]) ''crypto''
              = Some [(''BTC'', 6 / 10)]"
    by code_simp
  have h3: "(0 :: real) < sum_list (dict_values [(''BTC'', 6 / 10)])"
    by (simp add: dict_values_def)
  have h4: "''crypto'' \<notin> set (dict_keys (alloc_target (policy [(''equities'', 1)] (5 / 100) 1)))"
    by (simp add: policy_def dict_keys_def)
  show ?thesis
    using build_plan_keeps_unlisted_class [OF h1 h2 h3 h4] h1 h2 h3 h4
    by (simp add: dict_keys_def)
qed

text \<open>
  The claim as stated fails: with the policy \<open>equities: 1.0\<close> and the single signal
  \<open>BTC\<close> of confidence \<open>0.6\<close>, the class \<open>crypto\<close> has no policy entry and a positive
  confidence sum, and the plan still lists it in \<open>classes\<close> and emits an order for \<open>BTC\<close>.
\<close>

theorem build_plan_unlisted_class_counterexample:
  "build_plan (policy [(''equities'', 1)] (5 / 100) 1) [buy_signal ''BTC'' (6 / 10)]
     = Inr \<lparr>classes = [(''crypto'', [(''BTC'', 0)])],
            orders = [\<lparr>ord_instrument_id = ''BTC'', ord_action = HOLD, ord_target_weight = Some 0\<rparr>]\<rparr>
   \<and> dict_get (group_signals [buy_signal ''BTC'' (6 / 10)]) ''crypto'' = Some [(''BTC'', 6 / 10)]
   \<and> ''crypto'' \<notin> set (dict_keys (alloc_target (policy [(''equities'', 1)] (5 / 100) 1)))
   \<and> ''crypto'' \<in> set (dict_keys [(''crypto'', [(''BTC'', 0 :: real)])])
   \<and> ''BTC'' \<in> set (map ord_instrument_id
        [\<lparr>ord_instrument_id = ''BTC'', ord_action = HOLD, ord_target_weight = Some 0\<rparr>])"
  by code_simp

section \<open>The weight of a class in the plan\<close>

lemma sum_list_divide:
  fixes vs :: "real list"
  shows "sum_list (map (\<lambda>v. v / s) vs) = sum_list vs / s"
  by (induction vs) (simp_all add: add_divide_distrib)

lemma length_dict_values: "length (dict_values d) = length d"
  by (simp add: dict_values_def)

lemma cap_position_weights_sum:
  fixes insts :: "(string, real) dict"
  assumes nonneg: "\<forall>v \<in> set (dict_values insts). 0 \<le> v"
    and pos: "0 < sum_list (dict_values insts)"
    and pm: "0 < pm"
  shows "sum_list (dict_values
           (cap_position_weights (dict_map_values (\<lambda>v. v / sum_list (dict_values insts)) insts) pm))
         = 1"
proof -
  let ?s = "sum_list (dict_values insts)"
  let ?intra = "dict_map_values (\<lambda>v. v / ?s) insts"
  let ?capped = "dict_values (dict_map_values (\<lambda>w. min w pm) ?intra)"
  have capped: "?capped = map (\<lambda>v. min (v / ?s) pm) (dict_values insts)"
    by (simp add: dict_values_map_values)
  have cn: "\<forall>c \<in> set ?capped. 0 \<le> c"
    unfolding capped using nonneg pos pm by auto
  have "\<not> (\<forall>v \<in> set (dict_values insts). v = 0)"
  proof
    assume "\<forall>v \<in> set (dict_values insts). v = 0"
    then have "sum_list (dict_values insts) = 0"
      by (simp add: sum_list_nonneg_eq_0_iff nonneg)
    with pos show False by simp
  qed
  then obtain v where v: "v \<in> set (dict_values insts)" "v \<noteq> 0" by blast
  with nonneg have "0 < v" by force
  then have "0 < min (v / ?s) pm" using pos pm by simp
  moreover have "min (v / ?s) pm \<in> set ?capped"
    unfolding capped using v(1) by simp
  ultimately have "\<not> (\<forall>c \<in> set ?capped. c = 0)" by force
  moreover have "sum_list ?capped = 0 \<longleftrightarrow> (\<forall>c \<in> set ?capped. c = 0)"
    by (rule sum_list_nonneg_eq_0_iff) (simp add: cn)
  ultimately have s': "sum_list ?capped \<noteq> 0" by blast
  have "cap_position_weights ?intra pm
        = dict_map_values (\<lambda>v. v / sum_list ?capped) (dict_map_values (\<lambda>w. min w pm) ?intra)"
    using s' by (simp add: cap_position_weights_def Let_def)
  then have "dict_values (cap_position_weights ?intra pm)
             = map (\<lambda>v. v / sum_list ?capped) ?capped"
    by (simp only: dict_values_map_values)
  then have "sum_list (dict_values (cap_position_weights ?intra pm))
             = sum_list ?capped / sum_list ?capped"
    by (simp only: sum_list_divide)
  with s' show ?thesis by simp
qed

lemma sum_list_round6:
  "\<bar>sum_list (map (\<lambda>w. round6 (cw * w)) ws) - cw * sum_list ws\<bar> \<le> real (length ws) / 2000000"
proof (induction ws)
  case Nil
  then show ?case by simp
next
  case (Cons w ws)
  let ?a = "round6 (cw * w) - cw * w"
  let ?b = "sum_list (map (\<lambda>w. round6 (cw * w)) ws) - cw * sum_list ws"
  have a: "\<bar>?a\<bar> \<le> 1 / 2000000" by (rule round6_err)
  have split: "sum_list (map (\<lambda>w. round6 (cw * w)) (w # ws)) - cw * sum_list (w # ws) = ?a + ?b"
    by (simp add: distrib_left)
  have len: "real (length (w # ws)) / 2000000 = 1 / 2000000 + real (length ws) / 2000000"
    by (simp add: add_divide_distrib)
  have "\<bar>?a + ?b\<bar> \<le> \<bar>?a\<bar> + \<bar>?b\<bar>" by (rule abs_triangle_ineq)
  with a Cons.IH have "\<bar>?a + ?b\<bar> \<le> 1 / 2000000 + real (length ws) / 2000000"
    by linarith
  then show ?case by (simp only: split len)
qed

lemma class_plan_of_sum:
  fixes insts :: "(string, real) dict"
  assumes "\<forall>v \<in> set (dict_values insts). 0 \<le> v"
    and "0 < sum_list (dict_values insts)" and "0 < pm"
  shows "\<bar>sum_list (dict_values (class_plan_of insts pm cw)) - cw\<bar>
         \<le> real (length (class_plan_of insts pm cw)) / 2000000"
proof -
  let ?intra = "cap_position_weights
                  (dict_map_values (\<lambda>v. v / sum_list (dict_values insts)) insts) pm"
  have one: "sum_list (dict_values ?intra) = 1"
    by (rule cap_position_weights_sum [OF assms])
  have cp: "class_plan_of insts pm cw = dict_map_values (\<lambda>w. round6 (cw * w)) ?intra"
    by (simp add: class_plan_of_def Let_def)
  have "\<bar>sum_list (map (\<lambda>w. round6 (cw * w)) (dict_values ?intra)) - cw * sum_list (dict_values ?intra)\<bar>
        \<le> real (length (dict_values ?intra)) / 2000000"
    by (rule sum_list_round6)
  then have "\<bar>sum_list (dict_values (dict_map_values (\<lambda>w. round6 (cw * w)) ?intra)) - cw * 1\<bar>
        \<le> real (length (dict_map_values (\<lambda>w. round6 (cw * w)) ?intra)) / 2000000"
    by (simp only: dict_values_map_values one length_dict_map_values length_dict_values)
  then show ?thesis by (simp only: cp mult_1_right)
qed

text \<open>
  C3, as amended: for a policy with \<open>position_max_pct > 0\<close>, every class of the plan has
  instrument weights whose sum differs from the policy's class target clamped to \<open>[0,1]\<close>
  by at most \<open>n * 5e-7\<close>, with \<open>n\<close> the number of instruments of the class: each weight
  is rounded to six decimals on its own. (A class is in the plan only when its confidence
  sum was positive.)
\<close>

theorem class_weights_sum_to_target:
  assumes "build_plan strat signals = Inr p"
    and "position_max_pct strat = Some pos_max" and "0 < pos_max"
    and "(cls, class_plan) \<in> set (classes p)"
  shows "\<bar>sum_list (dict_values class_plan)
           - max 0 (min 1 (dict_get_or (alloc_target strat) cls 0))\<bar>
         \<le> real (length class_plan) / 2000000"
proof -
  from assms(1,2) have p: "p = foldl (add_class (alloc_target strat) pos_max)
                                \<lparr>classes = [], orders = []\<rparr> (group_signals signals)"
    by (simp add: build_plan_def Let_def)
  from foldl_add_class_classes [of cls class_plan "alloc_target strat" pos_max
      "\<lparr>classes = [], orders = []\<rparr>" "group_signals signals"] assms(4)
  obtain insts where mem: "(cls, insts) \<in> set (group_signals signals)"
    and pos: "0 < sum_list (dict_values insts)"
    and cp: "class_plan = class_plan_of insts pos_max
               (max 0 (min 1 (dict_get_or (alloc_target strat) cls 0)))"
    by (auto simp: p)
  from group_signals_nonneg [of signals] mem
  have nonneg: "\<forall>v \<in> set (dict_values insts). 0 \<le> v"
    by (force simp: nonneg_classes_def)
  show ?thesis
    unfolding cp by (rule class_plan_of_sum [OF nonneg pos assms(3)])
qed

theorem class_weights_sum_to_target_witness:
  "build_plan (policy [(''equities'', 6 / 10), (''crypto'', 4 / 10)] (5 / 100) (1 / 10))
       [buy_signal ''AAPL'' (8 / 10), buy_signal ''MSFT'' (2 / 10), buy_signal ''BTC'' (6 / 10)]
     = Inr \<lparr>classes = [(''equities'', [(''AAPL'', 3 / 10), (''MSFT'', 3 / 10)]),
                       (''crypto'', [(''BTC'', 4 / 10)])],
            orders = [target_order ''AAPL'' (3 / 10), target_order ''MSFT'' (3 / 10),
                      target_order ''BTC'' (4 / 10)]\<rparr>
   \<and> position_max_pct (policy [(''equities'', 6 / 10), (''crypto'', 4 / 10)] (5 / 100) (1 / 10))
       = Some (1 / 10)
   \<and> (0 :: real) < 1 / 10
   \<and> \<bar>sum_list (dict_values [(''AAPL'', 3 / 10), (''MSFT'', 3 / 10)])
        - max 0 (min 1 (dict_get_or
            (alloc_target (policy [(''equities'', 6 / 10), (''crypto'', 4 / 10)] (5 / 100) (1 / 10)))
            ''equities'' 0))\<bar>
       \<le> real (length [(''AAPL'', 3 / 10 :: real), (''MSFT'', 3 / 10)]) / 2000000"
proof -
  let ?pol = "policy [(''equities'', 6 / 10), (''crypto'', 4 / 10)] (5 / 100) (1 / 10)"
  let ?plan = "\<lparr>classes = [(''equities'', [(''AAPL'', 3 / 10), (''MSFT'', 3 / 10)]),
                           (''crypto'', [(''BTC'', 4 / 10)])],
                orders = [target_order ''AAPL'' (3 / 10), target_order ''MSFT'' (3 / 10),
                          target_order ''BTC'' (4 / 10)]\<rparr>"
  have h1: "build_plan ?pol
       [buy_signal ''AAPL'' (8 / 10), buy_signal ''MSFT'' (2 / 10), buy_signal ''BTC'' (6 / 10)]
     = Inr ?plan"
    by code_simp
  have h2: "position_max_pct ?pol = Some (1 / 10)"
    by (simp add: policy_def)
  have h3: "(0 :: real) < 1 / 10" by simp
  have h4: "(''equities'', [(''AAPL'', 3 / 10), (''MSFT'', 3 / 10)]) \<in> set (classes ?plan)"
    by simp
  from h1 h2 h3 class_weights_sum_to_target [OF h1 h2 h3 h4] show ?thesis
    by blast
qed

text \<open>
  The claim as stated (a tolerance of \<open>1e-6\<close>) fails: with the policy
  \<open>equities: 0.6, crypto: 0.4\<close>, \<open>position_max_pct = 0.2\<close> and seven equities signals of
  confidence \<open>0.5\<close> each, every instrument gets \<open>round(0.6 / 7, 6) = 0.085714\<close> and the
  class sums to \<open>0.599998\<close>, which is \<open>2e-6\<close> away from \<open>0.6\<close>.
\<close>

theorem class_weights_sum_counterexample:
  "map_sum id classes
     (build_plan (policy [(''equities'', 6 / 10), (''crypto'', 4 / 10)] (5 / 100) (2 / 10))
        seven_equities)
     = Inr [(''equities'',
             [(''AAPL'', 85714 / 1000000), (''MSFT'', 85714 / 1000000),
              (''NVDA'', 85714 / 1000000), (''GOOGL'', 85714 / 1000000),
              (''AMZN'', 85714 / 1000000), (''ASML'', 85714 / 1000000),
              (''SAP'', 85714 / 1000000)])]
   \<and> 1 / 1000000 <
       \<bar>sum_list (dict_values
            [(''AAPL'', 85714 / 1000000), (''MSFT'', 85714 / 1000000),
             (''NVDA'', 85714 / 1000000), (''GOOGL'', 85714 / 1000000),
             (''AMZN'', 85714 / 1000000), (''ASML'', 85714 / 1000000),
             (''SAP'', 85714 / 1000000 :: real)])
        - max 0 (min 1 (dict_get_or
            (alloc_target (policy [(''equities'', 6 / 10), (''crypto'', 4 / 10)] (5 / 100) (2 / 10)))
            ''equities'' 0))\<bar>"
  by code_simp

section \<open>The validator's policy-sum check\<close>

lemma band_errors_constructor:
  "m \<in> set (band_errors alloc class_sums bnd) \<Longrightarrow>
     \<exists>ct \<in> set alloc. out_of_band class_sums bnd ct
        \<and> m = ClassOutOfBand (fst ct) (snd ct) (dict_get_or class_sums (fst ct) 0) bnd"
  by (auto simp: band_errors_def)

lemma band_errors_member:
  "ct \<in> set alloc \<Longrightarrow> out_of_band class_sums bnd ct \<Longrightarrow>
     ClassOutOfBand (fst ct) (snd ct) (dict_get_or class_sums (fst ct) 0) bnd
       \<in> set (band_errors alloc class_sums bnd)"
  by (auto simp: band_errors_def intro!: image_eqI)

lemma position_errors_constructor:
  "m \<in> set (position_errors cls pos_max) \<Longrightarrow> \<exists>i c w. m = PositionAboveLimit i c w pos_max"
  by (auto simp: position_errors_def)

lemma plan_errors_constructor:
  "m \<in> set (plan_errors pfile) \<Longrightarrow> m = PlanNotFound \<or> m = PlanUnreadable"
  by (auto simp: plan_errors_def split: file_read.splits)

lemma rep_errors_run_validate_main:
  "rep_errors (run_validate_main sfile pfile) =
     strategy_errors sfile @ alloc_errors (alloc_target (strategy_of sfile)) @ plan_errors pfile
     @ (if classes_of pfile = [] then [PlanNoClasses] else [])
     @ band_errors (alloc_target (strategy_of sfile)) (class_sums_of (classes_of pfile))
         (case bands (strategy_of sfile) of None \<Rightarrow> 0 | Some b \<Rightarrow> b)
     @ (if 1 / 1000 < \<bar>sum_list (dict_values (class_sums_of (classes_of pfile))) - 1\<bar>
        then [TotalNot100 (sum_list (dict_values (class_sums_of (classes_of pfile))))] else [])
     @ position_errors (classes_of pfile)
         (case position_max_pct (strategy_of sfile) of None \<Rightarrow> 1 | Some m \<Rightarrow> m)"
  by (simp add: run_validate_main_def Let_def)

lemma rep_warnings_run_validate_main:
  "rep_warnings (run_validate_main sfile pfile) =
     alloc_warnings (alloc_target (strategy_of sfile))
     @ (if unknown_classes (alloc_target (strategy_of sfile)) (classes_of pfile) \<noteq> []
        then [UnknownClasses (unknown_classes (alloc_target (strategy_of sfile)) (classes_of pfile))]
        else [])
     @ (if missing_classes (alloc_target (strategy_of sfile)) (classes_of pfile) \<noteq> []
        then [MissingClasses (missing_classes (alloc_target (strategy_of sfile)) (classes_of pfile))]
        else [])"
  by (simp add: run_validate_main_def Let_def)

text \<open>
  C6, as amended: when the policy's \<open>alloc_target\<close> is non-empty and its values have a
  positive sum that differs from \<open>1.0\<close> by more than \<open>1e-6\<close>, the validator adds an entry
  to its warnings list, whatever the plan file holds; the policy-sum check adds nothing to
  the errors list (its error entries are for an absent \<open>alloc_target\<close> and for a sum
  \<open>\<le> 0\<close>).
\<close>

theorem alloc_sum_mismatch_is_a_warning:
  assumes "alloc_target strat \<noteq> []"
    and "0 < sum_list (dict_values (alloc_target strat))"
    and "1 / 1000000 < \<bar>sum_list (dict_values (alloc_target strat)) - 1\<bar>"
  shows "AllocSumNot100 (sum_list (dict_values (alloc_target strat)))
           \<in> set (rep_warnings (run_validate_main (Loaded strat) pfile))
       \<and> alloc_errors (alloc_target strat) = []
       \<and> AllocSumNot100 s \<notin> set (rep_errors (run_validate_main (Loaded strat) pfile))
       \<and> AllocSumNonPositive \<notin> set (rep_errors (run_validate_main (Loaded strat) pfile))
       \<and> AllocTargetAbsent \<notin> set (rep_errors (run_validate_main (Loaded strat) pfile))"
proof -
  have w: "alloc_warnings (alloc_target strat)
           = [AllocSumNot100 (sum_list (dict_values (alloc_target strat)))]"
    using assms by (simp add: alloc_warnings_def)
  have e: "alloc_errors (alloc_target strat) = []"
    using assms by (simp add: alloc_errors_def)
  have st: "strategy_of (Loaded strat) = strat" "strategy_errors (Loaded strat) = []"
    by (simp_all add: strategy_of_def strategy_errors_def)
  have warn: "AllocSumNot100 (sum_list (dict_values (alloc_target strat)))
           \<in> set (rep_warnings (run_validate_main (Loaded strat) pfile))"
    by (simp add: rep_warnings_run_validate_main st w)
  have none: "m \<notin> set (rep_errors (run_validate_main (Loaded strat) pfile))"
    if "m = AllocSumNot100 s \<or> m = AllocSumNonPositive \<or> m = AllocTargetAbsent" for m
  proof
    assume "m \<in> set (rep_errors (run_validate_main (Loaded strat) pfile))"
    then have "m \<in> set (plan_errors pfile) \<or> m = PlanNoClasses
        \<or> m \<in> set (band_errors (alloc_target strat) (class_sums_of (classes_of pfile))
                      (case bands strat of None \<Rightarrow> 0 | Some b \<Rightarrow> b))
        \<or> (\<exists>t. m = TotalNot100 t)
        \<or> m \<in> set (position_errors (classes_of pfile)
                      (case position_max_pct strat of None \<Rightarrow> 1 | Some m \<Rightarrow> m))"
      by (auto simp: rep_errors_run_validate_main st e split: if_splits)
    with that show False
      by (auto dest: plan_errors_constructor band_errors_constructor position_errors_constructor)
  qed
  from warn e none show ?thesis by blast
qed

theorem alloc_sum_mismatch_is_a_warning_witness:
  "alloc_target (policy [(''equities'', 6 / 10), (''crypto'', 3 / 10)] (5 / 100) 1) \<noteq> []
   \<and> (0 :: real) < 9 / 10
   \<and> (1 / 1000000 :: real) < \<bar>9 / 10 - 1\<bar>
   \<and> sum_list (dict_values
        (alloc_target (policy [(''equities'', 6 / 10), (''crypto'', 3 / 10)] (5 / 100) 1))) = 9 / 10
   \<and> AllocSumNot100 (9 / 10)
       \<in> set (rep_warnings (run_validate_main
                (Loaded (policy [(''equities'', 6 / 10), (''crypto'', 3 / 10)] (5 / 100) 1)) Missing))
   \<and> AllocSumNot100 (9 / 10)
       \<notin> set (rep_errors (run_validate_main
                (Loaded (policy [(''equities'', 6 / 10), (''crypto'', 3 / 10)] (5 / 100) 1)) Missing))"
proof -
  let ?pol = "policy [(''equities'', 6 / 10), (''crypto'', 3 / 10)] (5 / 100) 1"
  have s: "sum_list (dict_values (alloc_target ?pol)) = 9 / 10"
    by (simp add: policy_def dict_values_def)
  have h1: "alloc_target ?pol \<noteq> []" by (simp add: policy_def)
  have h2: "0 < sum_list (dict_values (alloc_target ?pol))" unfolding s by simp
  have h3: "1 / 1000000 < \<bar>sum_list (dict_values (alloc_target ?pol)) - 1\<bar>"
    unfolding s by simp
  from alloc_sum_mismatch_is_a_warning [OF h1 h2 h3, of Missing "9 / 10"] h1 s
  show ?thesis unfolding s by simp
qed

text \<open>
  The claim as stated fails: with \<open>alloc_target = {equities: 0.6, crypto: 0.3}\<close> (sum
  \<open>0.9\<close>), a band of \<open>0.05\<close> and a plan whose classes weigh \<open>0.65\<close> and \<open>0.35\<close>, the
  validator ends with an empty errors list and status \<open>OK\<close>; the sum is reported as a
  warning only.
\<close>

theorem alloc_sum_mismatch_counterexample:
  "rep_errors (run_validate_main
      (Loaded (policy [(''equities'', 6 / 10), (''crypto'', 3 / 10)] (5 / 100) 1))
      (Loaded (classes_plan [(''equities'', [(''AAPL'', 65 / 100)]),
                             (''crypto'', [(''BTC'', 35 / 100)])]))) = []
   \<and> rep_warnings (run_validate_main
      (Loaded (policy [(''equities'', 6 / 10), (''crypto'', 3 / 10)] (5 / 100) 1))
      (Loaded (classes_plan [(''equities'', [(''AAPL'', 65 / 100)]),
                             (''crypto'', [(''BTC'', 35 / 100)])]))) = [AllocSumNot100 (9 / 10)]
   \<and> rep_status (run_validate_main
      (Loaded (policy [(''equities'', 6 / 10), (''crypto'', 3 / 10)] (5 / 100) 1))
      (Loaded (classes_plan [(''equities'', [(''AAPL'', 65 / 100)]),
                             (''crypto'', [(''BTC'', 35 / 100)])]))) = OK"
  by code_simp

section \<open>The validator on a policy class that the plan lacks\<close>

lemma class_sums_fold_absent:
  assumes "c \<notin> set (dict_keys cls)"
  shows "map_of (foldl (\<lambda>acc ci. dict_set acc (fst ci) (sum_list (dict_values (snd ci)))) acc cls) c
         = map_of acc c"
  using assms
proof (induction cls arbitrary: acc)
  case Nil
  then show ?case by simp
next
  case (Cons ci cls)
  then have "fst ci \<noteq> c" and "c \<notin> set (dict_keys cls)"
    by (auto simp: dict_keys_def)
  with Cons.IH [of "dict_set acc (fst ci) (sum_list (dict_values (snd ci)))"]
  show ?case by (simp add: map_of_dict_set)
qed

lemma class_sums_absent:
  "c \<notin> set (dict_keys cls) \<Longrightarrow> dict_get_or (class_sums_of cls) c 0 = 0"
  by (simp add: class_sums_of_def dict_get_or_def class_sums_fold_absent)

lemma set_missing_classes:
  "set (missing_classes alloc cls) = {k \<in> set (dict_keys alloc). k \<notin> set (dict_keys cls)}"
  by (auto simp: missing_classes_def)

text \<open>
  C7, as amended: for every policy class that is absent from the plan's classes map, the
  validator reports the missing-class warning, whose list contains the class. The band check
  runs for every policy class, present or not, with \<open>0\<close> as the actual weight of an absent
  one: such a class gets a band-violation error exactly when \<open>0\<close> lies outside
  \<open>[target - band - 1e-6, target + band + 1e-6]\<close>. Band-violation errors are produced
  only for policy classes.
\<close>

theorem missing_class_warning_and_band_check:
  assumes "(cls, target) \<in> set (alloc_target strat)"
    and "cls \<notin> set (dict_keys (classes_of pfile))"
  shows "MissingClasses (missing_classes (alloc_target strat) (classes_of pfile))
           \<in> set (rep_warnings (run_validate_main (Loaded strat) pfile))
       \<and> cls \<in> set (missing_classes (alloc_target strat) (classes_of pfile))
       \<and> (ClassOutOfBand cls target 0 (case bands strat of None \<Rightarrow> 0 | Some b \<Rightarrow> b)
             \<in> set (rep_errors (run_validate_main (Loaded strat) pfile))
           \<longleftrightarrow> (0 < target - (case bands strat of None \<Rightarrow> 0 | Some b \<Rightarrow> b) - 1 / 1000000
                \<or> target + (case bands strat of None \<Rightarrow> 0 | Some b \<Rightarrow> b) + 1 / 1000000 < 0))
       \<and> (\<forall>c t a b. ClassOutOfBand c t a b \<in> set (rep_errors (run_validate_main (Loaded strat) pfile))
             \<longrightarrow> (c, t) \<in> set (alloc_target strat))"
proof -
  let ?bnd = "case bands strat of None \<Rightarrow> 0 | Some b \<Rightarrow> b"
  let ?sums = "class_sums_of (classes_of pfile)"
  let ?r = "run_validate_main (Loaded strat) pfile"
  have st: "strategy_of (Loaded strat) = strat" "strategy_errors (Loaded strat) = []"
    by (simp_all add: strategy_of_def strategy_errors_def)
  have key: "cls \<in> set (dict_keys (alloc_target strat))"
    using assms(1) by (force simp: dict_keys_def)
  have miss: "cls \<in> set (missing_classes (alloc_target strat) (classes_of pfile))"
    using key assms(2) by (simp add: set_missing_classes)
  then have "missing_classes (alloc_target strat) (classes_of pfile) \<noteq> []" by auto
  then have warn: "MissingClasses (missing_classes (alloc_target strat) (classes_of pfile))
           \<in> set (rep_warnings ?r)"
    by (simp add: rep_warnings_run_validate_main st)
  have actual: "dict_get_or ?sums cls 0 = 0"
    by (rule class_sums_absent [OF assms(2)])
  have band_only: "m \<in> set (rep_errors ?r) \<longleftrightarrow> m \<in> set (band_errors (alloc_target strat) ?sums ?bnd)"
    if "m = ClassOutOfBand c t a b" for m c t a b
    using that
    by (auto simp: rep_errors_run_validate_main st alloc_errors_def
        dest: plan_errors_constructor position_errors_constructor split: if_splits)
  have oob: "out_of_band ?sums ?bnd (cls, target)
             \<longleftrightarrow> (0 < target - ?bnd - 1 / 1000000 \<or> target + ?bnd + 1 / 1000000 < 0)"
    by (simp add: out_of_band_def Let_def actual)
  have iff: "ClassOutOfBand cls target 0 ?bnd \<in> set (rep_errors ?r)
             \<longleftrightarrow> (0 < target - ?bnd - 1 / 1000000 \<or> target + ?bnd + 1 / 1000000 < 0)"
  proof
    assume "ClassOutOfBand cls target 0 ?bnd \<in> set (rep_errors ?r)"
    then have "ClassOutOfBand cls target 0 ?bnd \<in> set (band_errors (alloc_target strat) ?sums ?bnd)"
      using band_only by blast
    then obtain ct where "out_of_band ?sums ?bnd ct" and "fst ct = cls" and "snd ct = target"
      by (auto dest: band_errors_constructor)
    then have "out_of_band ?sums ?bnd (cls, target)" by (metis prod.collapse)
    with oob show "0 < target - ?bnd - 1 / 1000000 \<or> target + ?bnd + 1 / 1000000 < 0"
      by simp
  next
    assume "0 < target - ?bnd - 1 / 1000000 \<or> target + ?bnd + 1 / 1000000 < 0"
    with oob have "out_of_band ?sums ?bnd (cls, target)" by simp
    with assms(1) have "ClassOutOfBand (fst (cls, target)) (snd (cls, target))
                          (dict_get_or ?sums (fst (cls, target)) 0) ?bnd
                        \<in> set (band_errors (alloc_target strat) ?sums ?bnd)"
      by (rule band_errors_member)
    then have "ClassOutOfBand cls target 0 ?bnd \<in> set (band_errors (alloc_target strat) ?sums ?bnd)"
      by (simp add: actual)
    then show "ClassOutOfBand cls target 0 ?bnd \<in> set (rep_errors ?r)"
      using band_only by blast
  qed
  have only_policy: "(c, t) \<in> set (alloc_target strat)"
    if "ClassOutOfBand c t a b \<in> set (rep_errors ?r)" for c t a b
  proof -
    from that have "ClassOutOfBand c t a b \<in> set (band_errors (alloc_target strat) ?sums ?bnd)"
      using band_only by blast
    then obtain ct where "ct \<in> set (alloc_target strat)" and "fst ct = c" and "snd ct = t"
      by (auto dest: band_errors_constructor)
    then show ?thesis by (metis prod.collapse)
  qed
  from warn miss iff only_policy show ?thesis by blast
qed

theorem missing_class_warning_and_band_check_witness:
  "(''crypto'', 4 / 10)
     \<in> set (alloc_target (policy [(''equities'', 6 / 10), (''crypto'', 4 / 10)] (5 / 100) 1))
   \<and> ''crypto'' \<notin> set (dict_keys (classes_of
         (Loaded (classes_plan [(''equities'', [(''AAPL'', 6 / 10)])]))))
   \<and> missing_classes (alloc_target (policy [(''equities'', 6 / 10), (''crypto'', 4 / 10)] (5 / 100) 1))
        (classes_of (Loaded (classes_plan [(''equities'', [(''AAPL'', 6 / 10)])]))) = [''crypto'']
   \<and> MissingClasses [''crypto'']
       \<in> set (rep_warnings (run_validate_main
            (Loaded (policy [(''equities'', 6 / 10), (''crypto'', 4 / 10)] (5 / 100) 1))
            (Loaded (classes_plan [(''equities'', [(''AAPL'', 6 / 10)])]))))
   \<and> ClassOutOfBand ''crypto'' (4 / 10) 0 (5 / 100)
       \<in> set (rep_errors (run_validate_main
            (Loaded (policy [(''equities'', 6 / 10), (''crypto'', 4 / 10)] (5 / 100) 1))
            (Loaded (classes_plan [(''equities'', [(''AAPL'', 6 / 10)])]))))"
proof -
  let ?pol = "policy [(''equities'', 6 / 10), (''crypto'', 4 / 10)] (5 / 100) 1"
  let ?pf = "Loaded (classes_plan [(''equities'', [(''AAPL'', 6 / 10)])])"
  have h1: "(''crypto'', 4 / 10) \<in> set (alloc_target ?pol)"
    by (simp add: policy_def)
  have h2: "''crypto'' \<notin> set (dict_keys (classes_of ?pf))"
    by (simp add: classes_of_def classes_plan_def dict_keys_def)
  have m: "missing_classes (alloc_target ?pol) (classes_of ?pf) = [''crypto'']"
    by code_simp
  have b: "(case bands ?pol of None \<Rightarrow> 0 | Some b \<Rightarrow> b) = 5 / 100"
    by (simp add: policy_def)
  have c: "(0 :: real) < 4 / 10 - 5 / 100 - 1 / 1000000" by simp
  from missing_class_warning_and_band_check [OF h1 h2]
  have "MissingClasses (missing_classes (alloc_target ?pol) (classes_of ?pf))
           \<in> set (rep_warnings (run_validate_main (Loaded ?pol) ?pf))"
    and "ClassOutOfBand ''crypto'' (4 / 10) 0 (case bands ?pol of None \<Rightarrow> 0 | Some b \<Rightarrow> b)
             \<in> set (rep_errors (run_validate_main (Loaded ?pol) ?pf))
           \<longleftrightarrow> (0 < 4 / 10 - (case bands ?pol of None \<Rightarrow> 0 | Some b \<Rightarrow> b) - 1 / 1000000
                \<or> 4 / 10 + (case bands ?pol of None \<Rightarrow> 0 | Some b \<Rightarrow> b) + 1 / 1000000 < (0 :: real))"
    by blast+
  then have "MissingClasses [''crypto''] \<in> set (rep_warnings (run_validate_main (Loaded ?pol) ?pf))"
    and "ClassOutOfBand ''crypto'' (4 / 10) 0 (5 / 100)
             \<in> set (rep_errors (run_validate_main (Loaded ?pol) ?pf))"
    unfolding m b using c by blast+
  with h1 h2 m show ?thesis by blast
qed

text \<open>
  The claim as stated fails: with the policy \<open>equities: 0.6, crypto: 0.4\<close>, a band of
  \<open>0.05\<close> and a plan that has the class \<open>equities\<close> only, the validator reports the
  missing class \<open>crypto\<close> as a warning and also a band-violation error for it (target
  \<open>0.4\<close>, actual \<open>0\<close>).
\<close>

theorem missing_class_band_error_counterexample:
  "''crypto'' \<notin> set (dict_keys (classes_of
       (Loaded (classes_plan [(''equities'', [(''AAPL'', 6 / 10)])]))))
   \<and> rep_warnings (run_validate_main
        (Loaded (policy [(''equities'', 6 / 10), (''crypto'', 4 / 10)] (5 / 100) 1))
        (Loaded (classes_plan [(''equities'', [(''AAPL'', 6 / 10)])])))
       = [MissingClasses [''crypto'']]
   \<and> rep_errors (run_validate_main
        (Loaded (policy [(''equities'', 6 / 10), (''crypto'', 4 / 10)] (5 / 100) 1))
        (Loaded (classes_plan [(''equities'', [(''AAPL'', 6 / 10)])])))
       = [ClassOutOfBand ''crypto'' (4 / 10) 0 (5 / 100), TotalNot100 (6 / 10)]"
  by code_simp

end
